theory Spec2Isabelle
  imports Complex_Main "HOL-Library.AList"
begin

section \<open>Python values, errors and the framework's layer graph\<close>

text \<open>
  Both source files compose layers of the tensor framework. A tensor is modelled by the
  expression that builds it: one constructor per framework primitive the two files use,
  carrying the arguments the source passes. Exceptions of the Python code are values of
  \<open>error\<close>; a function that can raise returns \<open>error + 'a\<close>. The framework's own
  checks of shapes and arguments are not modelled, except the two of the convolution
  constructor that are written out for the loop of \<open>GroupConv2D\<close>: elsewhere a primitive
  applied to any arguments builds its node. Python floats (the ratios, the momentum, the
  survival probability) are exact rationals.
\<close>

datatype pyval =
    PInt int
  | PRat rat
  | PStr string
  | PBool bool
  | PNone
  | PTuple "pyval list"
  | PObj string

datatype error =
    NameError string
  | AttributeError string
  | ZeroDivisionError
  | TypeError string
  | ValueError string
  | IndexError

text \<open>A kernel size or a stride is passed as one integer or as a pair of integers.\<close>

datatype size2 = Scalar int | Tuple2 int int

fun size2_to_py :: "size2 \<Rightarrow> pyval" where
  "size2_to_py (Scalar k) = PInt k"
| "size2_to_py (Tuple2 a b) = PTuple [PInt a, PInt b]"

text \<open>Sequencing of steps that can raise: the first error ends the computation.\<close>

definition and_then :: "error + 'a \<Rightarrow> ('a \<Rightarrow> error + 'b) \<Rightarrow> error + 'b" where
  "and_then r f = (case r of Inl e \<Rightarrow> Inl e | Inr v \<Rightarrow> f v)"

text \<open>Python's \<open>x == 1\<close> for a size: a tuple is never equal to the integer 1.\<close>

fun eq_one :: "size2 \<Rightarrow> bool" where
  "eq_one (Scalar k) = (k = 1)"
| "eq_one (Tuple2 a b) = False"

datatype initializer = GlorotUniform | CONV_KERNEL_INITIALIZER

text \<open>The arguments of a \<open>Conv2D\<close> layer, with the framework's defaults.\<close>

record conv2d =
  conv_filters :: int
  conv_kernel_size :: size2
  conv_strides :: size2
  conv_padding :: string
  conv_data_format :: "string option"
  conv_activation :: "string option"
  conv_use_bias :: bool
  conv_kernel_initializer :: initializer
  conv_name :: "string option"
  conv_kwargs :: "(string \<times> pyval) list"

definition Conv2D_layer :: "int \<Rightarrow> size2 \<Rightarrow> conv2d" where
  "Conv2D_layer f k =
     \<lparr>conv_filters = f, conv_kernel_size = k, conv_strides = Tuple2 1 1,
      conv_padding = ''valid'', conv_data_format = None, conv_activation = None,
      conv_use_bias = True, conv_kernel_initializer = GlorotUniform,
      conv_name = None, conv_kwargs = []\<rparr>"

datatype tensor =
    Placeholder int
  | Conv2D conv2d tensor
  | BatchNormalization int rat "string option" tensor
  | Activation string string tensor
  | Relu tensor
  | GlobalAveragePooling2D string tensor
  | Reshape "int list" string tensor
  | Multiply tensor tensor string
  | Add tensor tensor "string option"
  | Dropout rat "int option list" string tensor
  | Slice int int tensor
  | Concat "tensor list" int

text \<open>
  \<open>Placeholder c\<close> is an input feature map with \<open>c\<close> channels.
  \<open>BatchNormalization axis momentum name x\<close>, \<open>Activation activation name x\<close>,
  \<open>Dropout rate noise_shape name x\<close>, \<open>Slice lo hi x\<close> is \<open>x[:, :, :, lo:hi]\<close> and
  \<open>Concat xs axis\<close> is \<open>tf.concat(xs, axis)\<close>.
\<close>

section \<open>layers/fusedmbconv.py\<close>

definition BN_AXIS :: int where
  "BN_AXIS = 3"

text \<open>The framework's base layer: what \<open>super().__init__(**kwargs)\<close> keeps.\<close>

record Layer =
  name :: string
  trainable :: bool
  dtype :: string

record FusedMBConvBlock = Layer +
  input_filters :: int
  output_filters :: int
  expand_ratio :: int
  kernel_size :: size2
  strides :: size2
  se_ratio :: rat
  bn_momentum :: rat
  activation :: string
  survival_probability :: rat

subsection \<open>Names visible in \<open>call\<close>\<close>

text \<open>
  A name that \<open>call\<close> reads and never assigns is looked up in the module's globals and
  then in the builtins. The module binds its three imports, its two constants and the
  class; the interpreter adds the module attributes.
\<close>

definition module_globals :: "(string \<times> pyval) list" where
  "module_globals =
     [(''tf'', PObj ''module''), (''backend'', PObj ''module''), (''layers'', PObj ''module''),
      (''BN_AXIS'', PInt 3), (''CONV_KERNEL_INITIALIZER'', PObj ''dict''),
      (''FusedMBConvBlock'', PObj ''class''),
      (''__name__'', PObj ''str''), (''__doc__'', PNone), (''__package__'', PObj ''str''),
      (''__loader__'', PObj ''loader''), (''__spec__'', PObj ''spec''),
      (''__file__'', PObj ''str''), (''__cached__'', PObj ''str''),
      (''__builtins__'', PObj ''module'')]"

definition builtin_names :: "string list" where
  "builtin_names =
     [''abs'', ''aiter'', ''all'', ''anext'', ''any'', ''ascii'', ''bin'', ''bool'',
      ''breakpoint'', ''bytearray'', ''bytes'', ''callable'', ''chr'', ''classmethod'',
      ''compile'', ''complex'', ''delattr'', ''dict'', ''dir'', ''divmod'', ''enumerate'',
      ''eval'', ''exec'', ''filter'', ''float'', ''format'', ''frozenset'', ''getattr'',
      ''globals'', ''hasattr'', ''hash'', ''help'', ''hex'', ''id'', ''input'', ''int'',
      ''isinstance'', ''issubclass'', ''iter'', ''len'', ''list'', ''locals'', ''map'',
      ''max'', ''memoryview'', ''min'', ''next'', ''object'', ''oct'', ''open'', ''ord'',
      ''pow'', ''print'', ''property'', ''range'', ''repr'', ''reversed'', ''round'',
      ''set'', ''setattr'', ''slice'', ''sorted'', ''staticmethod'', ''str'', ''sum'',
      ''super'', ''tuple'', ''type'', ''vars'', ''zip'', ''__import__'',
      ''__build_class__'', ''__debug__'', ''Ellipsis'', ''NotImplemented'',
      ''copyright'', ''credits'', ''license'', ''exit'', ''quit'',
      ''BaseException'', ''BaseExceptionGroup'', ''Exception'', ''ExceptionGroup'',
      ''GeneratorExit'', ''KeyboardInterrupt'', ''SystemExit'', ''ArithmeticError'',
      ''AssertionError'', ''AttributeError'', ''BufferError'', ''EOFError'',
      ''ImportError'', ''LookupError'', ''MemoryError'', ''NameError'', ''OSError'',
      ''ReferenceError'', ''RuntimeError'', ''StopAsyncIteration'', ''StopIteration'',
      ''SyntaxError'', ''SystemError'', ''TypeError'', ''ValueError'', ''Warning'',
      ''FloatingPointError'', ''OverflowError'', ''ZeroDivisionError'', ''BytesWarning'',
      ''DeprecationWarning'', ''EncodingWarning'', ''FutureWarning'', ''ImportWarning'',
      ''PendingDeprecationWarning'', ''ResourceWarning'', ''RuntimeWarning'',
      ''SyntaxWarning'', ''UnicodeWarning'', ''UserWarning'', ''BlockingIOError'',
      ''ChildProcessError'', ''ConnectionError'', ''BrokenPipeError'',
      ''ConnectionAbortedError'', ''ConnectionRefusedError'', ''ConnectionResetError'',
      ''FileExistsError'', ''FileNotFoundError'', ''InterruptedError'',
      ''IsADirectoryError'', ''NotADirectoryError'', ''PermissionError'',
      ''ProcessLookupError'', ''TimeoutError'', ''IndentationError'', ''TabError'',
      ''IndexError'', ''KeyError'', ''ModuleNotFoundError'', ''NotImplementedError'',
      ''RecursionError'', ''UnboundLocalError'', ''UnicodeError'', ''UnicodeDecodeError'',
      ''UnicodeEncodeError'', ''UnicodeTranslateError'', ''EnvironmentError'', ''IOError'']"

fun builtin_binding :: "string \<Rightarrow> string \<times> pyval" where
  "builtin_binding b = (b, PObj ''builtin'')"

definition lookup_global :: "string \<Rightarrow> error + pyval" where
  "lookup_global n =
     (case map_of (module_globals @ map builtin_binding builtin_names) n of
        None \<Rightarrow> Inl (NameError n)
      | Some v \<Rightarrow> Inr v)"

text \<open>The product of two looked-up values, as a filter count.\<close>

fun py_mul :: "pyval \<Rightarrow> pyval \<Rightarrow> error + int" where
  "py_mul (PInt a) (PInt b) = Inr (a * b)"
| "py_mul a b = Inl (TypeError ''unsupported operand type(s) for *'')"

subsection \<open>The stages of \<open>call\<close>\<close>

text \<open>Python's \<open>int(x)\<close> on a number: truncation toward zero.\<close>

definition py_int :: "rat \<Rightarrow> int" where
  "py_int x = (if 0 \<le> x then \<lfloor>x\<rfloor> else \<lceil>x\<rceil>)"

text \<open>Lines 67 to 85, given the value of the local \<open>filters\<close>.\<close>

definition expansion_phase :: "FusedMBConvBlock \<Rightarrow> int \<Rightarrow> tensor \<Rightarrow> tensor" where
  "expansion_phase self filters inputs =
     (if expand_ratio self \<noteq> 1 then
        Activation (activation self) (name self @ ''expand_activation'')
          (BatchNormalization BN_AXIS (bn_momentum self) (Some (name self @ ''expand_bn''))
            (Conv2D ((Conv2D_layer filters (kernel_size self))
                       \<lparr>conv_strides := strides self,
                        conv_kernel_initializer := CONV_KERNEL_INITIALIZER,
                        conv_data_format := Some ''channels_last'',
                        conv_padding := ''same'',
                        conv_use_bias := False,
                        conv_name := Some (name self @ ''expand_conv'')\<rparr>)
               inputs))
      else inputs)"

text \<open>
  Line 89. The product is the exact one. The code's product is a double, the nearest to
  the exact product: the two agree where the exact product is a double, as it is for 7
  filters and a ratio of 1/4, and can differ by one after truncation elsewhere.
\<close>

definition filters_se :: "FusedMBConvBlock \<Rightarrow> int" where
  "filters_se self = max 1 (py_int (of_int (input_filters self) * se_ratio self))"

text \<open>Lines 90 to 113: the gate computed from \<open>x\<close>.\<close>

definition se_reduce :: "FusedMBConvBlock \<Rightarrow> conv2d" where
  "se_reduce self =
     (Conv2D_layer (filters_se self) (Scalar 1))
       \<lparr>conv_padding := ''same'',
        conv_activation := Some (activation self),
        conv_kernel_initializer := CONV_KERNEL_INITIALIZER,
        conv_name := Some (name self @ ''se_reduce'')\<rparr>"

definition se_expand :: "FusedMBConvBlock \<Rightarrow> int \<Rightarrow> conv2d" where
  "se_expand self filters =
     (Conv2D_layer filters (Scalar 1))
       \<lparr>conv_padding := ''same'',
        conv_activation := Some ''sigmoid'',
        conv_kernel_initializer := CONV_KERNEL_INITIALIZER,
        conv_name := Some (name self @ ''se_expand'')\<rparr>"

definition se_gate :: "FusedMBConvBlock \<Rightarrow> int \<Rightarrow> tensor \<Rightarrow> tensor" where
  "se_gate self filters x =
     (let se = GlobalAveragePooling2D (name self @ ''se_squeeze'') x;
          se_shape = (if BN_AXIS = 1 then [filters, 1, 1] else [1, 1, filters]);
          se = Reshape se_shape (name self @ ''se_reshape'') se;
          se = Conv2D (se_reduce self) se
      in Conv2D (se_expand self filters) se)"

text \<open>Lines 88 to 115.\<close>

definition squeeze_and_excite :: "FusedMBConvBlock \<Rightarrow> int \<Rightarrow> tensor \<Rightarrow> tensor" where
  "squeeze_and_excite self filters x =
     (if 0 < se_ratio self \<and> se_ratio self \<le> 1 then
        Multiply x (se_gate self filters x) (name self @ ''se_excite'')
      else x)"

text \<open>Lines 118 to 126: the projection convolution.\<close>

definition project_conv :: "FusedMBConvBlock \<Rightarrow> conv2d" where
  "project_conv self =
     (Conv2D_layer (output_filters self)
        (if expand_ratio self \<noteq> 1 then Scalar 1 else kernel_size self))
       \<lparr>conv_strides := (if expand_ratio self \<noteq> 1 then Scalar 1 else strides self),
        conv_kernel_initializer := CONV_KERNEL_INITIALIZER,
        conv_padding := ''same'',
        conv_use_bias := False,
        conv_name := Some (name self @ ''project_conv'')\<rparr>"

text \<open>Lines 118 to 133.\<close>

definition output_phase :: "FusedMBConvBlock \<Rightarrow> tensor \<Rightarrow> tensor" where
  "output_phase self x =
     (let x = Conv2D (project_conv self) x;
          x = BatchNormalization BN_AXIS (bn_momentum self) (Some (name self @ ''project_bn'')) x
      in if expand_ratio self = 1 then
           Activation (activation self) (name self @ ''project_activation'') x
         else x)"

text \<open>
  Lines 137 to 142: \<open>if self.survival_probability\<close> is true of a nonzero number. The
  layer is built as it is for a rate strictly between 0 and 1; the framework refuses a
  rate outside \<open>[0, 1]\<close>, and a rate of 1 when the layer runs in training.
\<close>

definition dropout_stage :: "FusedMBConvBlock \<Rightarrow> tensor \<Rightarrow> tensor" where
  "dropout_stage self x =
     (if survival_probability self \<noteq> 0 then
        Dropout (survival_probability self) [None, Some 1, Some 1, Some 1]
          (name self @ ''drop'') x
      else x)"

text \<open>Lines 136 to 144.\<close>

definition residual :: "FusedMBConvBlock \<Rightarrow> tensor \<Rightarrow> tensor \<Rightarrow> tensor" where
  "residual self x inputs =
     (if eq_one (strides self) \<and> input_filters self = output_filters self then
        Add (dropout_stage self x) inputs (Some (name self @ ''add''))
      else x)"

text \<open>Lines 67 to 144, given the value of the local \<open>filters\<close>.\<close>

definition call_stages :: "FusedMBConvBlock \<Rightarrow> int \<Rightarrow> tensor \<Rightarrow> tensor" where
  "call_stages self filters inputs =
     (let x = expansion_phase self filters inputs;
          x = squeeze_and_excite self filters x;
          x = output_phase self x
      in residual self x inputs)"

text \<open>
  Lines 64 to 144. Line 66 reads the names \<open>input_filters\<close> and \<open>expand_ratio\<close>, not the
  attributes of \<open>self\<close>; the left operand is evaluated first.
  (The framework runs \<open>build\<close> before the first \<open>call\<close>; the name of a layer is a
  string, never \<open>None\<close>, so that \<open>build\<close> changes nothing.)
\<close>

definition call :: "FusedMBConvBlock \<Rightarrow> tensor \<Rightarrow> error + tensor" where
  "call self inputs =
     (case lookup_global ''input_filters'' of
        Inl e \<Rightarrow> Inl e
      | Inr a \<Rightarrow>
          (case lookup_global ''expand_ratio'' of
             Inl e \<Rightarrow> Inl e
           | Inr b \<Rightarrow>
               (case py_mul a b of
                  Inl e \<Rightarrow> Inl e
                | Inr filters \<Rightarrow> Inr (call_stages self filters inputs))))"

subsection \<open>Construction and configuration\<close>

text \<open>
  The base layer of the framework is not part of the repository. Its constructor and its
  \<open>get_config\<close> are modelled on the three entries that the base configuration holds:
  the constructor reads them from the keyword arguments, with the framework's defaults
  (the default name is the class name in snake case; the counter that the framework
  appends to later unnamed layers is left out), and refuses any other keyword.
\<close>

fun as_int :: "string \<Rightarrow> pyval \<Rightarrow> error + int" where
  "as_int n (PInt i) = Inr i"
| "as_int n v = Inl (TypeError n)"

fun as_rat :: "string \<Rightarrow> pyval \<Rightarrow> error + rat" where
  "as_rat n (PRat r) = Inr r"
| "as_rat n (PInt i) = Inr (of_int i)"
| "as_rat n v = Inl (TypeError n)"

fun as_str :: "string \<Rightarrow> pyval \<Rightarrow> error + string" where
  "as_str n (PStr s) = Inr s"
| "as_str n v = Inl (TypeError n)"

fun as_bool :: "string \<Rightarrow> pyval \<Rightarrow> error + bool" where
  "as_bool n (PBool b) = Inr b"
| "as_bool n v = Inl (TypeError n)"

fun as_size2 :: "string \<Rightarrow> pyval \<Rightarrow> error + size2" where
  "as_size2 n (PInt k) = Inr (Scalar k)"
| "as_size2 n (PTuple [PInt a, PInt b]) = Inr (Tuple2 a b)"
| "as_size2 n v = Inl (TypeError n)"

text \<open>A keyword argument with a default, and one without.\<close>

definition optional :: "(string \<times> pyval) list \<Rightarrow> string \<Rightarrow> (string \<Rightarrow> pyval \<Rightarrow> error + 'a) \<Rightarrow> 'a \<Rightarrow> error + 'a" where
  "optional kwargs n decode d =
     (case map_of kwargs n of None \<Rightarrow> Inr d | Some v \<Rightarrow> decode n v)"

definition required :: "(string \<times> pyval) list \<Rightarrow> string \<Rightarrow> (string \<Rightarrow> pyval \<Rightarrow> error + 'a) \<Rightarrow> error + 'a" where
  "required kwargs n decode =
     (case map_of kwargs n of
        None \<Rightarrow> Inl (TypeError (''missing required argument: '' @ n))
      | Some v \<Rightarrow> decode n v)"

definition Layer_keys :: "string list" where
  "Layer_keys = [''name'', ''trainable'', ''dtype'']"

definition Layer_init :: "(string \<times> pyval) list \<Rightarrow> error + Layer" where
  "Layer_init kwargs =
     (if list_ex (\<lambda>kv. fst kv \<notin> set Layer_keys) kwargs then
        Inl (TypeError ''unexpected keyword argument'')
      else
        and_then (optional kwargs ''name'' as_str ''fused_mb_conv_block'') (\<lambda>n.
        and_then (optional kwargs ''trainable'' as_bool True) (\<lambda>t.
        and_then (optional kwargs ''dtype'' as_str ''float32'') (\<lambda>d.
        Inr \<lparr>name = n, trainable = t, dtype = d\<rparr>))))"

definition Layer_get_config :: "'a Layer_scheme \<Rightarrow> (string \<times> pyval) list" where
  "Layer_get_config self =
     [(''name'', PStr (name self)), (''trainable'', PBool (trainable self)),
      (''dtype'', PStr (dtype self))]"

text \<open>Lines 34 to 58: the nine arguments are stored as they are given.\<close>

definition FusedMBConvBlock_init ::
  "int \<Rightarrow> int \<Rightarrow> int \<Rightarrow> size2 \<Rightarrow> size2 \<Rightarrow> rat \<Rightarrow> rat \<Rightarrow> string \<Rightarrow> rat \<Rightarrow> (string \<times> pyval) list
   \<Rightarrow> error + FusedMBConvBlock" where
  "FusedMBConvBlock_init f_in f_out er ks st se bn act sp kwargs =
     and_then (Layer_init kwargs) (\<lambda>base.
       Inr \<lparr>name = name base, trainable = trainable base, dtype = dtype base,
            input_filters = f_in, output_filters = f_out, expand_ratio = er,
            kernel_size = ks, strides = st, se_ratio = se, bn_momentum = bn,
            activation = act, survival_probability = sp\<rparr>)"

text \<open>Python's \<open>dict(pairs)\<close>: a later pair with a key already present replaces its value.\<close>

definition dict_of :: "(string \<times> pyval) list \<Rightarrow> (string \<times> pyval) list" where
  "dict_of xs = foldl (\<lambda>d kv. AList.update (fst kv) (snd kv) d) [] xs"

text \<open>Lines 146 to 160.\<close>

definition get_config :: "FusedMBConvBlock \<Rightarrow> (string \<times> pyval) list" where
  "get_config self =
     (let config =
            [(''input_filters'', PInt (input_filters self)),
             (''output_filters'', PInt (output_filters self)),
             (''expand_ratio'', PInt (expand_ratio self)),
             (''kernel_size'', size2_to_py (kernel_size self)),
             (''strides'', size2_to_py (strides self)),
             (''se_ratio'', PRat (se_ratio self)),
             (''bn_momentum'', PRat (bn_momentum self)),
             (''activation'', PStr (activation self)),
             (''survival_probability'', PRat (survival_probability self))];
          base_config = Layer_get_config self
      in dict_of (base_config @ config))"

definition param_names :: "string list" where
  "param_names =
     [''input_filters'', ''output_filters'', ''expand_ratio'', ''kernel_size'', ''strides'',
      ''se_ratio'', ''bn_momentum'', ''activation'', ''survival_probability'']"

text \<open>
  The framework's \<open>from_config\<close> is \<open>cls(**config)\<close>: the entries named like a parameter
  of \<open>__init__\<close> are bound to it, the defaults of line 38 to 44 fill in for the missing
  ones, and the other entries are the keyword arguments of the base layer.
\<close>

definition from_config :: "(string \<times> pyval) list \<Rightarrow> error + FusedMBConvBlock" where
  "from_config config =
     and_then (required config ''input_filters'' as_int) (\<lambda>f_in.
     and_then (required config ''output_filters'' as_int) (\<lambda>f_out.
     and_then (optional config ''expand_ratio'' as_int 1) (\<lambda>er.
     and_then (optional config ''kernel_size'' as_size2 (Scalar 3)) (\<lambda>ks.
     and_then (optional config ''strides'' as_size2 (Scalar 1)) (\<lambda>st.
     and_then (optional config ''se_ratio'' as_rat 0) (\<lambda>se.
     and_then (optional config ''bn_momentum'' as_rat (9 / 10)) (\<lambda>bn.
     and_then (optional config ''activation'' as_str ''swish'') (\<lambda>act.
     and_then (optional config ''survival_probability'' as_rat (4 / 5)) (\<lambda>sp.
       FusedMBConvBlock_init f_in f_out er ks st se bn act sp
         (filter (\<lambda>kv. fst kv \<notin> set param_names) config))))))))))"

subsection \<open>Reading the graph\<close>

text \<open>
  The number of channels of a tensor in the channels-last layout, as the framework's
  shape rules give it: a convolution has as many as it has filters, the pointwise layers
  keep the count, a slice of the last axis follows Python's slice bounds, a concatenation
  along the last axis adds the counts, and a product or sum broadcasts a count of one.
\<close>

definition slice_len :: "int \<Rightarrow> int \<Rightarrow> int \<Rightarrow> int" where
  "slice_len n lo hi =
     (let l = (if lo < 0 then max 0 (lo + n) else min lo n);
          h = (if hi < 0 then max 0 (hi + n) else min hi n)
      in max 0 (h - l))"

definition broadcast :: "int \<Rightarrow> int \<Rightarrow> int" where
  "broadcast a b = (if a = 1 then b else a)"

fun channels :: "tensor \<Rightarrow> int" where
  "channels (Placeholder c) = c"
| "channels (Conv2D cfg x) = conv_filters cfg"
| "channels (BatchNormalization axis momentum n x) = channels x"
| "channels (Activation a n x) = channels x"
| "channels (Relu x) = channels x"
| "channels (GlobalAveragePooling2D n x) = channels x"
| "channels (Reshape shape n x) = (case rev shape of [] \<Rightarrow> channels x | c # _ \<Rightarrow> c)"
| "channels (Multiply x y n) = broadcast (channels x) (channels y)"
| "channels (Add x y n) = broadcast (channels x) (channels y)"
| "channels (Dropout rate noise n x) = channels x"
| "channels (Slice lo hi x) = slice_len (channels x) lo hi"
| "channels (Concat xs axis) = sum_list (map channels xs)"

fun is_add :: "tensor \<Rightarrow> bool" where
  "is_add (Add x y n) = True"
| "is_add t = False"

text \<open>What a call returned, when it returned a tensor.\<close>

fun returned_add :: "error + tensor \<Rightarrow> bool" where
  "returned_add (Inr t) = is_add t"
| "returned_add (Inl e) = False"

fun returned_channels :: "error + tensor \<Rightarrow> int option" where
  "returned_channels (Inr t) = Some (channels t)"
| "returned_channels (Inl e) = None"

text \<open>
  The framework's dropout layer zeroes a unit of its noise shape with probability \<open>rate\<close>
  in training and is the identity at inference. With the noise shape of line 140 a unit
  is one sample.
\<close>

fun zeroing_probability :: "bool \<Rightarrow> tensor \<Rightarrow> rat" where
  "zeroing_probability training (Dropout rate noise n x) = (if training then rate else 0)"
| "zeroing_probability training t = 0"

text \<open>
  The block \<open>FusedMBConvBlock(32, 32, name="block0")\<close>, every other argument at its
  default.
\<close>

abbreviation block_32 :: FusedMBConvBlock where
  "block_32 \<equiv>
     \<lparr>name = ''block0'', trainable = True, dtype = ''float32'',
      input_filters = 32, output_filters = 32, expand_ratio = 1,
      kernel_size = Scalar 3, strides = Scalar 1, se_ratio = 0,
      bn_momentum = 9 / 10, activation = ''swish'',
      survival_probability = 4 / 5\<rparr>"

section \<open>models/resnext.py\<close>

text \<open>
  A \<open>GroupConv2D\<close> object: the attributes that \<open>__init__\<close> assigns, and \<open>layer_attrs\<close>,
  the attributes that the object has from the framework's base layer (and from a
  subclass, if there is one) when line 21 is reached. The base layer is not part of the
  repository, so its attributes are a parameter of the constructor.
\<close>

record GroupConv2D =
  layer_attrs :: "(string \<times> pyval) list"
  group_kernel_size :: size2
  group_strides :: size2
  group_padding :: string
  group_in_num :: int
  group_out_num :: int
  conv_list :: "conv2d list"

text \<open>\<open>self.groups\<close>: no line of the class assigns it.\<close>

definition getattr_groups :: "GroupConv2D \<Rightarrow> error + pyval" where
  "getattr_groups self =
     (case map_of (layer_attrs self) ''groups'' of
        None \<Rightarrow> Inl (AttributeError ''groups'')
      | Some v \<Rightarrow> Inr v)"

fun py_range :: "pyval \<Rightarrow> error + nat list" where
  "py_range (PInt n) = Inr [0..<nat n]"
| "py_range (PBool b) = Inr [0..<(if b then 1 else 0)]"
| "py_range v = Inl (TypeError ''object cannot be interpreted as an integer'')"

text \<open>
  Lines 28 to 30: the convolution of one group. Python refuses the call when \<open>kwargs\<close>
  repeats one of the four keywords that the line passes, and the framework's constructor
  refuses a filter count that is not positive. (Its checks of the kernel size, the
  strides, the padding and of unknown keywords are not modelled.)
\<close>

definition group_conv :: "int \<Rightarrow> size2 \<Rightarrow> size2 \<Rightarrow> string \<Rightarrow> (string \<times> pyval) list \<Rightarrow> error + conv2d" where
  "group_conv f ks st pad kwargs =
     (if list_ex (\<lambda>kv. fst kv \<in> set [''filters'', ''kernel_size'', ''strides'', ''padding''])
           kwargs then
        Inl (TypeError ''got multiple values for keyword argument'')
      else if f \<le> 0 then
        Inl (ValueError ''filters'')
      else
        Inr ((Conv2D_layer f ks)
               \<lparr>conv_strides := st, conv_padding := pad, conv_kwargs := kwargs\<rparr>))"

text \<open>Lines 27 to 30, over the indices of the range.\<close>

fun init_loop ::
  "size2 \<Rightarrow> size2 \<Rightarrow> string \<Rightarrow> (string \<times> pyval) list \<Rightarrow> nat list \<Rightarrow> GroupConv2D
   \<Rightarrow> error + GroupConv2D" where
  "init_loop ks st pad kwargs [] self = Inr self"
| "init_loop ks st pad kwargs (i # rest) self =
     (case group_conv (group_out_num self) ks st pad kwargs of
        Inl e \<Rightarrow> Inl e
      | Inr conv \<Rightarrow>
          init_loop ks st pad kwargs rest (self\<lparr>conv_list := conv_list self @ [conv]\<rparr>))"

text \<open>Lines 19 to 30. The floor divisions of lines 24 and 25 raise when \<open>groups\<close> is 0.\<close>

definition GroupConv2D_init ::
  "(string \<times> pyval) list \<Rightarrow> int \<Rightarrow> int \<Rightarrow> int \<Rightarrow> size2 \<Rightarrow> size2 \<Rightarrow> string \<Rightarrow> (string \<times> pyval) list
   \<Rightarrow> error + GroupConv2D" where
  "GroupConv2D_init base input_channels output_channels groups ks st pad kwargs =
     (if groups = 0 then Inl ZeroDivisionError
      else
        (let self = \<lparr>layer_attrs = base, group_kernel_size = ks, group_strides = st,
                     group_padding = pad,
                     group_in_num = input_channels div groups,
                     group_out_num = output_channels div groups,
                     conv_list = []\<rparr>
         in and_then (getattr_groups self) (\<lambda>g.
            and_then (py_range g) (\<lambda>indices.
            init_loop ks st pad kwargs indices self))))"

text \<open>Lines 34 to 36, over the indices of the range; \<open>conv_list[i]\<close> raises past the end.\<close>

fun call_loop :: "GroupConv2D \<Rightarrow> tensor \<Rightarrow> nat list \<Rightarrow> tensor list \<Rightarrow> error + tensor list" where
  "call_loop self inputs [] feature_map_list = Inr feature_map_list"
| "call_loop self inputs (i # rest) feature_map_list =
     (if i < length (conv_list self) then
        (let x_i = Conv2D (conv_list self ! i)
                     (Slice (int i * group_in_num self) ((int i + 1) * group_in_num self) inputs)
         in call_loop self inputs rest (feature_map_list @ [x_i]))
      else Inl IndexError)"

text \<open>Lines 32 to 38.\<close>

definition GroupConv2D_call :: "GroupConv2D \<Rightarrow> tensor \<Rightarrow> error + tensor" where
  "GroupConv2D_call self inputs =
     and_then (getattr_groups self) (\<lambda>g.
     and_then (py_range g) (\<lambda>indices.
     and_then (call_loop self inputs indices []) (\<lambda>feature_map_list.
     Inr (Concat feature_map_list (- 1)))))"

text \<open>Lines 41 to 45; the batch normalization has the framework's defaults.\<close>

definition ConvBlock :: "tensor \<Rightarrow> int \<Rightarrow> size2 \<Rightarrow> size2 \<Rightarrow> string \<Rightarrow> tensor" where
  "ConvBlock inputs filters ks st pad =
     (let x = Conv2D ((Conv2D_layer filters ks)\<lparr>conv_strides := st, conv_padding := pad\<rparr>) inputs;
          x = BatchNormalization (- 1) (99 / 100) None x
      in Relu x)"

text \<open>Line 54.\<close>

definition shortcut :: "tensor \<Rightarrow> int \<Rightarrow> size2 \<Rightarrow> tensor" where
  "shortcut inputs filters st = ConvBlock inputs (2 * filters) (Tuple2 1 1) st ''same''"

text \<open>Lines 51 to 56, from the output \<open>x\<close> of the grouped convolution.\<close>

definition after_group_conv :: "tensor \<Rightarrow> int \<Rightarrow> size2 \<Rightarrow> tensor \<Rightarrow> tensor" where
  "after_group_conv inputs filters st x =
     (let x = BatchNormalization (- 1) (99 / 100) None x;
          x = Relu x;
          x = ConvBlock x (2 * filters) (Tuple2 1 1) (Scalar 1) ''same''
      in Add x (shortcut inputs filters st) None)"

text \<open>Lines 47 to 56.\<close>

definition ResNeXt_BottleNeck ::
  "(string \<times> pyval) list \<Rightarrow> tensor \<Rightarrow> int \<Rightarrow> size2 \<Rightarrow> int \<Rightarrow> error + tensor" where
  "ResNeXt_BottleNeck base inputs filters st groups =
     (let x = ConvBlock inputs filters (Tuple2 1 1) (Scalar 1) ''same''
      in and_then (GroupConv2D_init base filters filters groups (Tuple2 3 3) st ''same'' [])
           (\<lambda>layer.
         and_then (GroupConv2D_call layer x) (\<lambda>x.
         Inr (after_group_conv inputs filters st x))))"

text \<open>
  The public attributes and methods of the framework's base layer, each bound to some
  object: what \<open>layer_attrs\<close> is for a \<open>GroupConv2D\<close> that no subclass extends.
\<close>

definition Layer_attr_names :: "string list" where
  "Layer_attr_names =
     [''activity_regularizer'', ''add_loss'', ''add_metric'', ''add_update'',
      ''add_variable'', ''add_weight'', ''build'', ''built'', ''call'', ''compute_dtype'',
      ''compute_mask'', ''compute_output_shape'', ''compute_output_signature'',
      ''count_params'', ''dtype'', ''dtype_policy'', ''dynamic'', ''finalize_state'',
      ''from_config'', ''get_config'', ''get_weights'', ''inbound_nodes'', ''input'',
      ''input_mask'', ''input_shape'', ''input_spec'', ''losses'', ''metrics'', ''name'',
      ''name_scope'', ''non_trainable_variables'', ''non_trainable_weights'',
      ''outbound_nodes'', ''output'', ''output_mask'', ''output_shape'', ''set_weights'',
      ''stateful'', ''submodules'', ''supports_masking'', ''trainable'',
      ''trainable_variables'', ''trainable_weights'', ''updates'', ''variable_dtype'',
      ''variables'', ''weights'', ''with_name_scope'']"

fun attr_binding :: "string \<Rightarrow> string \<times> pyval" where
  "attr_binding a = (a, PObj ''attribute'')"

definition Layer_attrs :: "(string \<times> pyval) list" where
  "Layer_attrs = map attr_binding Layer_attr_names"

section \<open>Properties of the fused block\<close>

subsection \<open>The call\<close>

lemma lookup_global_input_filters:
  "lookup_global ''input_filters'' = Inl (NameError ''input_filters'')"
  by (simp add: lookup_global_def module_globals_def builtin_names_def)

lemma call_raises:
  "call self inputs = Inl (NameError ''input_filters'')"
  by (simp add: call_def lookup_global_input_filters)

lemma init_block_32:
  "FusedMBConvBlock_init 32 32 1 (Scalar 3) (Scalar 1) 0 (9 / 10) ''swish'' (4 / 5)
     [(''name'', PStr ''block0'')] = Inr block_32"
  by (simp add: FusedMBConvBlock_init_def Layer_init_def Layer_keys_def optional_def
      and_then_def)

text \<open>
  C1. Calling a block built from valid arguments should raise nothing. The block with 32
  input and output filters, every other argument at its default, is constructed without
  an error; called on a feature map of 32 channels it raises the name error of line 66.
\<close>

theorem call_valid_block_raises:
  "FusedMBConvBlock_init 32 32 1 (Scalar 3) (Scalar 1) 0 (9 / 10) ''swish'' (4 / 5)
     [(''name'', PStr ''block0'')] = Inr block_32
   \<and> call block_32 (Placeholder 32) = Inl (NameError ''input_filters'')"
  by (simp only: init_block_32 call_raises)

text \<open>
  C8. The residual add should occur exactly when \<open>strides == 1\<close> and the filter counts
  agree, and otherwise the projected output with \<open>output_filters\<close> channels should be
  returned. The block with strides 1 and 32 input and output filters raises at line 66:
  no add occurs. The block with strides 2 and 64 output filters raises as well: no
  tensor is returned.
\<close>

theorem call_returns_no_residual_add:
  "strides block_32 = Scalar 1
   \<and> input_filters block_32 = output_filters block_32
   \<and> call block_32 (Placeholder 32) = Inl (NameError ''input_filters'')
   \<and> \<not> returned_add (call block_32 (Placeholder 32))
   \<and> returned_channels
         (call (block_32\<lparr>output_filters := 64, strides := Scalar 2\<rparr>) (Placeholder 32))
       = None"
  by (simp add: call_raises)

text \<open>
  C9. The projection convolution should have kernel size 1 and stride 1 when
  \<open>expand_ratio\<close> is not 1, the block's own kernel size and strides when it is 1, and
  be followed by the activation exactly in the second case. A block with
  \<open>expand_ratio\<close> 4 and a block with \<open>expand_ratio\<close> 1 both raise at line 66, before
  the projection of line 118 is built.
\<close>

theorem call_builds_no_projection:
  "expand_ratio (block_32\<lparr>expand_ratio := 4, kernel_size := Scalar 5, strides := Scalar 2\<rparr>) \<noteq> 1
   \<and> call (block_32\<lparr>expand_ratio := 4, kernel_size := Scalar 5, strides := Scalar 2\<rparr>)
         (Placeholder 32)
       = Inl (NameError ''input_filters'')
   \<and> expand_ratio (block_32\<lparr>kernel_size := Scalar 5, strides := Scalar 2\<rparr>) = 1
   \<and> call (block_32\<lparr>kernel_size := Scalar 5, strides := Scalar 2\<rparr>) (Placeholder 32)
       = Inl (NameError ''input_filters'')"
  by (simp add: call_raises)

text \<open>
  C6. For a ratio in \<open>(0, 1]\<close> the reduction convolution should have
  \<open>max(1, round(input_filters * se_ratio))\<close> filters. The block with 7 input filters and a
  ratio of 1/4 raises at line 66, before the squeeze-and-excite stage is built. Line 89
  itself gives 1 for this block, where rounding 7/4 gives 2.
\<close>

theorem call_builds_no_se_reduce:
  "0 < se_ratio (block_32\<lparr>input_filters := 7, output_filters := 7, se_ratio := 1 / 4\<rparr>)
   \<and> se_ratio (block_32\<lparr>input_filters := 7, output_filters := 7, se_ratio := 1 / 4\<rparr>) \<le> 1
   \<and> call (block_32\<lparr>input_filters := 7, output_filters := 7, se_ratio := 1 / 4\<rparr>)
         (Placeholder 7)
       = Inl (NameError ''input_filters'')
   \<and> filters_se (block_32\<lparr>input_filters := 7, output_filters := 7, se_ratio := 1 / 4\<rparr>) = 1
   \<and> max 1 (round (rat_of_int 7 * (1 / 4))) = (2 :: int)"
  by (simp add: call_raises filters_se_def py_int_def round_def floor_eq_iff)

subsection \<open>Stochastic depth\<close>

text \<open>
  C3. With \<open>strides == 1\<close> and equal filter counts the projected output should be zeroed,
  per sample and in training, with probability \<open>1 - survival_probability\<close>. For the block
  with the default survival probability 4/5 the residual stage applies a dropout layer
  whose rate is 4/5, so that the projected output is zeroed with probability 4/5, where
  the claim has 1/5.
\<close>

theorem dropout_rate_is_survival_probability:
  "residual block_32 (output_phase block_32 (Placeholder 32)) (Placeholder 32) =
     Add (Dropout (4 / 5) [None, Some 1, Some 1, Some 1] ''block0drop''
            (output_phase block_32 (Placeholder 32)))
         (Placeholder 32) (Some ''block0add'')
   \<and> zeroing_probability True
         (dropout_stage block_32 (output_phase block_32 (Placeholder 32))) = 4 / 5
   \<and> 1 - survival_probability block_32 = 1 / 5"
  by (simp add: residual_def dropout_stage_def)

subsection \<open>Configuration\<close>

lemma as_size2_to_py: "as_size2 n (size2_to_py s) = Inr s"
  by (cases s) simp_all

lemma from_config_get_config: "from_config (get_config self) = Inr self"
  by (simp add: from_config_def get_config_def dict_of_def Layer_get_config_def
      required_def optional_def and_then_def FusedMBConvBlock_init_def Layer_init_def
      Layer_keys_def param_names_def Let_def as_size2_to_py)

text \<open>
  C10. Constructing a fresh block from the configuration of a block succeeds, and the
  fresh block has the configuration of the original (it is the original: the nine
  arguments and the entries of the base layer are all in the configuration).
\<close>

theorem config_round_trip:
  "\<exists>fresh. from_config (get_config self) = Inr fresh
     \<and> get_config fresh = get_config self \<and> fresh = self"
  by (simp add: from_config_get_config)

section \<open>Properties of the grouped convolution and the bottleneck\<close>

lemma map_of_Layer_attrs: "map_of Layer_attrs ''groups'' = None"
  by (simp add: Layer_attrs_def Layer_attr_names_def)

lemma init_no_groups:
  assumes "map_of base ''groups'' = None"
  shows "GroupConv2D_init base ic oc g ks st pad kw
           = Inl (if g = 0 then ZeroDivisionError else AttributeError ''groups'')"
  using assms by (simp add: GroupConv2D_init_def getattr_groups_def and_then_def Let_def)

text \<open>
  C2, as the claim states it: every argument combination should end in an attribute
  error. With \<open>groups = 0\<close> the constructor raises the division error of line 24.
\<close>

theorem init_groups_zero:
  "GroupConv2D_init Layer_attrs 8 8 0 (Tuple2 3 3) (Tuple2 1 1) ''valid'' []
     = Inl ZeroDivisionError"
  by (simp add: GroupConv2D_init_def)

text \<open>
  C2, amended. When the base layer gives the object no attribute \<open>groups\<close>, the
  constructor never completes: it raises the attribute error of line 27 for every
  nonzero \<open>groups\<close>, and the division error of line 24 when \<open>groups\<close> is 0. A call of
  \<open>ResNeXt_BottleNeck\<close> fails in the same way at line 49, whatever its arguments.
\<close>

theorem GroupConv2D_never_constructed:
  assumes "map_of base ''groups'' = None"
  shows "GroupConv2D_init base ic oc g ks st pad kw
           = Inl (if g = 0 then ZeroDivisionError else AttributeError ''groups'')
         \<and> ResNeXt_BottleNeck base inputs filters st2 g2
           = Inl (if g2 = 0 then ZeroDivisionError else AttributeError ''groups'')"
  by (simp add: init_no_groups [OF assms] ResNeXt_BottleNeck_def and_then_def Let_def)

theorem GroupConv2D_never_constructed_witness:
  "map_of Layer_attrs ''groups'' = None
   \<and> GroupConv2D_init Layer_attrs 8 8 4 (Tuple2 3 3) (Tuple2 1 1) ''valid'' []
       = Inl (AttributeError ''groups'')
   \<and> ResNeXt_BottleNeck Layer_attrs (Placeholder 64) 32 (Scalar 2) 8
       = Inl (AttributeError ''groups'')"
  using GroupConv2D_never_constructed [OF map_of_Layer_attrs,
      of 8 8 4 "Tuple2 3 3" "Tuple2 1 1" "''valid''" "[]" "Placeholder 64" 32 "Scalar 2" 8]
  by (simp add: map_of_Layer_attrs)




text \<open>
  C7. The call of a \<open>GroupConv2D\<close> with 4 groups should return the concatenation of the
  4 group outputs. Constructing the layer for 8 input and 8 output channels in 4 groups
  and calling it on a feature map of 8 channels raises the attribute error of line 27:
  no layer is built and nothing is returned.
\<close>

theorem group_conv_construct_and_call_raises:
  "and_then (GroupConv2D_init Layer_attrs 8 8 4 (Tuple2 3 3) (Tuple2 1 1) ''valid'' [])
     (\<lambda>layer. GroupConv2D_call layer (Placeholder 8))
   = Inl (AttributeError ''groups'')"
  by (simp add: init_no_groups [OF map_of_Layer_attrs] and_then_def)

text \<open>
  C5. The shortcut of the bottleneck should be a 1x1 convolution and a batch
  normalization, with no activation. The call with 32 filters, strides 2 and 8 groups
  raises the attribute error at line 49, before the shortcut of line 54 is built. Line
  54 itself builds the shortcut with \<open>ConvBlock\<close>, which ends in a ReLU.
\<close>

theorem bottleneck_raises_before_shortcut:
  "ResNeXt_BottleNeck Layer_attrs (Placeholder 64) 32 (Scalar 2) 8
     = Inl (AttributeError ''groups'')
   \<and> shortcut (Placeholder 64) 32 (Scalar 2) =
       Relu (BatchNormalization (- 1) (99 / 100) None
         (Conv2D \<lparr>conv_filters = 64, conv_kernel_size = Tuple2 1 1, conv_strides = Scalar 2,
                  conv_padding = ''same'', conv_data_format = None, conv_activation = None,
                  conv_use_bias = True, conv_kernel_initializer = GlorotUniform,
                  conv_name = None, conv_kwargs = []\<rparr>
            (Placeholder 64)))"
  by (simp add: ResNeXt_BottleNeck_def init_no_groups [OF map_of_Layer_attrs] and_then_def
      shortcut_def ConvBlock_def Conv2D_layer_def Let_def)

end
